theory Spec2Isabelle
  imports Main "HOL-Library.AList"
begin

section \<open>JavaScript values\<close>

text \<open>
  The client is JavaScript: its option records, response bodies and header values are
  dynamically typed, and the code chooses between them with \<^verbatim>\<open>||\<close>, which tests
  truthiness. The values that reach the code are modelled by \<open>jsval\<close>. Numbers are the
  integers (status codes, milliseconds); \<open>NaN\<close>, fractions, arrays and functions are
  left out. An object is the list of its own properties, in insertion order.
\<close>

datatype jsval =
    JUndefined
  | JNull
  | JBool bool
  | JNum int
  | JStr string
  | JObj "(string \<times> jsval) list"

text \<open>ToBoolean: what \<^verbatim>\<open>if (v)\<close>, \<^verbatim>\<open>!v\<close> and \<^verbatim>\<open>v || w\<close> test.\<close>

fun truthy :: "jsval \<Rightarrow> bool" where
  "truthy JUndefined = False"
| "truthy JNull = False"
| "truthy (JBool b) = b"
| "truthy (JNum n) = (n \<noteq> 0)"
| "truthy (JStr s) = (s \<noteq> [])"
| "truthy (JObj kvs) = True"

text \<open>\<^verbatim>\<open>a || b\<close>: the left operand when it is truthy, else the right one.\<close>

definition js_or :: "jsval \<Rightarrow> jsval \<Rightarrow> jsval" where
  "js_or a b = (if truthy a then a else b)"

text \<open>
  \<^verbatim>\<open>o.k\<close> for a value \<open>o\<close> that is neither \<open>null\<close> nor \<open>undefined\<close> (reading a
  property of those throws, see \<open>nullish\<close>). The keys the client reads (\<open>rootUrl\<close>,
  \<open>logger\<close>, \<open>timeout\<close>, \<open>auth\<close>, \<open>message\<close>, \<open>code\<close>, \<open>name\<close>) are properties
  of no primitive, so a primitive gives \<open>undefined\<close>.
\<close>

fun js_get :: "jsval \<Rightarrow> string \<Rightarrow> jsval" where
  "js_get (JObj kvs) k = (case map_of kvs k of Some v \<Rightarrow> v | None \<Rightarrow> JUndefined)"
| "js_get v k = JUndefined"

fun nullish :: "jsval \<Rightarrow> bool" where
  "nullish JUndefined = True"
| "nullish JNull = True"
| "nullish v = False"

text \<open>Decimal digits of a natural number, most significant first.\<close>

fun digits10 :: "nat \<Rightarrow> string" where
  "digits10 n =
     (if n < 10 then [''0123456789'' ! n]
      else digits10 (n div 10) @ [''0123456789'' ! (n mod 10)])"

text \<open>
  ToString, as string concatenation (\<^verbatim>\<open>'..' + v\<close>) and \<^verbatim>\<open>new Error(v)\<close> apply
  it. A plain object prints as \<^verbatim>\<open>[object Object]\<close>.
\<close>

fun js_to_string :: "jsval \<Rightarrow> string" where
  "js_to_string JUndefined = ''undefined''"
| "js_to_string JNull = ''null''"
| "js_to_string (JBool b) = (if b then ''true'' else ''false'')"
| "js_to_string (JNum n) = (if n < 0 then ''-'' @ digits10 (nat (- n)) else digits10 (nat n))"
| "js_to_string (JStr s) = s"
| "js_to_string (JObj kvs) = ''[object Object]''"

text \<open>What the code throws: a \<open>TypeError\<close> of the runtime, or its own \<open>Error\<close>.\<close>

datatype js_error = TypeError string | Error string

section \<open>The client\<close>

text \<open>
  A \<open>ProxyClient\<close> object: the three configuration properties the constructor sets and
  \<^verbatim>\<open>_authorization\<close>.
\<close>

record client =
  rootUrl :: jsval
  logger :: jsval
  timeout :: jsval
  authorization :: jsval

text \<open>
  An object fresh from \<^verbatim>\<open>new\<close>: it has no property of its own, and
  \<^verbatim>\<open>ProxyClient.prototype\<close> defines none of \<open>rootUrl\<close>, \<open>logger\<close>, \<open>timeout\<close>, so
  reading them gives \<open>undefined\<close>.
\<close>

definition blank :: client where
  "blank = \<lparr>rootUrl = JUndefined, logger = JUndefined, timeout = JUndefined,
            authorization = JUndefined\<rparr>"

text \<open>
  The constructor body, run on the object \<open>this\<close>. \<open>createMill\<close> is
  \<^verbatim>\<open>sawmill.createMill\<close>, the logging library's factory, a parameter of the model;
  it is given \<^verbatim>\<open>this.constructor.name\<close>, which is \<^verbatim>\<open>'ProxyClient'\<close>.
\<close>

definition ProxyClient :: "(string \<Rightarrow> jsval) \<Rightarrow> client \<Rightarrow> jsval \<Rightarrow> client" where
  "ProxyClient createMill this options0 =
     (let options = js_or options0 (JObj []) in
      \<lparr>rootUrl = js_or (js_or (rootUrl this) (js_get options ''rootUrl''))
                       (JStr ''http://localhost''),
       logger = js_or (js_or (logger this) (js_get options ''logger''))
                      (createMill ''ProxyClient''),
       timeout = js_or (js_or (timeout this) (js_get options ''timeout'')) (JNum 5000),
       authorization = JNull\<rparr>)"

text \<open>
  Objects live in a store: the address of an object is its index. \<^verbatim>\<open>new ProxyClient(options)\<close>
  allocates a fresh object, runs the constructor on it and returns its address. Calling
  \<^verbatim>\<open>ProxyClient(options)\<close> without \<^verbatim>\<open>new\<close> does the same (the \<^verbatim>\<open>instanceof\<close>
  test), and so does \<open>createClient\<close>.
\<close>

type_synonym heap = "client list"

definition new_ProxyClient :: "(string \<Rightarrow> jsval) \<Rightarrow> heap \<Rightarrow> jsval \<Rightarrow> heap \<times> nat" where
  "new_ProxyClient createMill h options =
     (h @ [ProxyClient createMill blank options], length h)"

definition createClient :: "(string \<Rightarrow> jsval) \<Rightarrow> heap \<Rightarrow> jsval \<Rightarrow> heap \<times> nat" where
  "createClient createMill h options = new_ProxyClient createMill h options"

text \<open>A client object seen as a value, as when \<open>getChild\<close> passes \<open>this\<close> for the options.\<close>

definition client_obj :: "client \<Rightarrow> jsval" where
  "client_obj c =
     JObj [(''rootUrl'', rootUrl c), (''logger'', logger c), (''timeout'', timeout c),
           (''_authorization'', authorization c)]"

text \<open>
  \<open>getChild\<close>: \<open>this\<close> is the address of the parent. Invoked on something that is not a
  live object, \<^verbatim>\<open>this.constructor\<close> throws; with \<open>options\<close> null or undefined,
  \<^verbatim>\<open>options.auth\<close> throws, after the child was created.
\<close>

definition getChild ::
  "(string \<Rightarrow> jsval) \<Rightarrow> heap \<Rightarrow> nat \<Rightarrow> jsval \<Rightarrow> js_error + (heap \<times> nat)" where
  "getChild createMill h this options =
     (if \<not> this < length h then Inl (TypeError ''this.constructor'')
      else
        (let (h1, child) = createClient createMill h (client_obj (h ! this)) in
         if nullish options then Inl (TypeError ''options.auth'')
         else Inr (h1[child := (h1 ! child)\<lparr>authorization := js_get options ''auth''\<rparr>],
                   child)))"

text \<open>
  What the constructor establishes and no method of the class changes: the three
  configuration properties are truthy.
\<close>

definition client_ok :: "client \<Rightarrow> bool" where
  "client_ok c \<longleftrightarrow> truthy (rootUrl c) \<and> truthy (logger c) \<and> truthy (timeout c)"

text \<open>
  The result of \<^verbatim>\<open>url.parse\<close> (Node's URL module, a parameter of the model): each
  component is a string or \<open>null\<close>.
\<close>

record parsed_url =
  url_protocol :: jsval
  url_hostname :: jsval
  url_host :: jsval
  url_port :: jsval
  url_path :: jsval

definition getUrl :: "(string \<Rightarrow> parsed_url) \<Rightarrow> client \<Rightarrow> string \<Rightarrow> string" where
  "getUrl url_parse this path =
     (if truthy (url_hostname (url_parse path)) then path
      else js_to_string (rootUrl this) @ path)"

section \<open>Requests through superagent\<close>

text \<open>
  \<open>request\<close> configures a superagent request and returns it; superagent itself is a
  library outside the repository. The model records what the builder calls leave on the
  request: the method and URL it was created with, the header fields set on it
  (\<^verbatim>\<open>set\<close> assigns the field, replacing an earlier value of the same name), the
  timeout, the plugins applied with \<^verbatim>\<open>use\<close> and the events listened to. The three
  listeners only write to the logger and are recorded by their event names.
\<close>

record superagent_request =
  sa_method :: string
  sa_url :: string
  sa_header :: "(string \<times> jsval) list"
  sa_timeout :: jsval
  sa_plugins :: "string list"
  sa_listeners :: "string list"

definition superagent :: "string \<Rightarrow> string \<Rightarrow> superagent_request" where
  "superagent m href =
     \<lparr>sa_method = m, sa_url = href, sa_header = [], sa_timeout = JUndefined,
      sa_plugins = [], sa_listeners = []\<rparr>"

definition sa_set :: "string \<Rightarrow> jsval \<Rightarrow> superagent_request \<Rightarrow> superagent_request" where
  "sa_set field val r = r\<lparr>sa_header := AList.update field val (sa_header r)\<rparr>"

definition sa_set_timeout :: "jsval \<Rightarrow> superagent_request \<Rightarrow> superagent_request" where
  "sa_set_timeout ms r = r\<lparr>sa_timeout := ms\<rparr>"

definition sa_use :: "string \<Rightarrow> superagent_request \<Rightarrow> superagent_request" where
  "sa_use plugin r = r\<lparr>sa_plugins := sa_plugins r @ [plugin]\<rparr>"

definition sa_on :: "string \<Rightarrow> superagent_request \<Rightarrow> superagent_request" where
  "sa_on event r = r\<lparr>sa_listeners := sa_listeners r @ [event]\<rparr>"

definition request ::
  "(string \<Rightarrow> parsed_url) \<Rightarrow> client \<Rightarrow> string \<Rightarrow> string \<Rightarrow> superagent_request" where
  "request url_parse this m path =
     (let href = getUrl url_parse this path in
      sa_on ''response''
        (sa_on ''error''
          (sa_on ''request''
            (sa_use ''superagentThen''
              (sa_set_timeout (timeout this)
                (sa_set ''Authorization'' (authorization this) (superagent m href)))))))"

definition get :: "(string \<Rightarrow> parsed_url) \<Rightarrow> client \<Rightarrow> string \<Rightarrow> superagent_request" where
  "get url_parse this path = request url_parse this ''GET'' path"

definition post :: "(string \<Rightarrow> parsed_url) \<Rightarrow> client \<Rightarrow> string \<Rightarrow> superagent_request" where
  "post url_parse this path = request url_parse this ''POST'' path"

definition put :: "(string \<Rightarrow> parsed_url) \<Rightarrow> client \<Rightarrow> string \<Rightarrow> superagent_request" where
  "put url_parse this path = request url_parse this ''PUT'' path"

definition del :: "(string \<Rightarrow> parsed_url) \<Rightarrow> client \<Rightarrow> string \<Rightarrow> superagent_request" where
  "del url_parse this path = request url_parse this ''DELETE'' path"

section \<open>Rejecting a response\<close>

text \<open>A superagent response, as far as \<open>rejectResponse\<close> reads it.\<close>

record response =
  resp_status :: int
  resp_text :: jsval
  resp_body :: jsval
  resp_headers :: "(string \<times> jsval) list"

text \<open>
  An \<open>Error\<close> object with the properties the code assigns. \<^verbatim>\<open>new Error(v)\<close> stores
  ToString of \<open>v\<close> as the message unless \<open>v\<close> is \<open>undefined\<close>, when the message is
  the empty string of the prototype; the name starts as \<^verbatim>\<open>'Error'\<close>.
\<close>

record client_error =
  err_message :: string
  err_code :: jsval
  err_name :: jsval
  err_response :: "response option"

definition new_Error :: "jsval \<Rightarrow> client_error" where
  "new_Error v =
     \<lparr>err_message = (if v = JUndefined then [] else js_to_string v),
      err_code = JUndefined, err_name = JStr ''Error'', err_response = None\<rparr>"

text \<open>
  The characters the regular expression \<^verbatim>\<open>\s\<close> matches among the code units below
  256: space, tab, line feed, vertical tab, form feed, carriage return and the no-break
  space.
\<close>

definition js_space :: "char \<Rightarrow> bool" where
  "js_space c = (of_char c \<in> {32, 9, 10, 11, 12, 13, 160 :: nat})"

text \<open>\<^verbatim>\<open>s.replace(/\s/g, '')\<close>\<close>

definition remove_space :: "string \<Rightarrow> string" where
  "remove_space s = filter (\<lambda>c. \<not> js_space c) s"

datatype ('v, 'e) promise = Fulfilled 'v | Rejected 'e

text \<open>
  \<open>STATUS_CODES\<close> is Node's table \<^verbatim>\<open>http.STATUS_CODES\<close>, a parameter of the model:
  the phrase of a status code, if it has one. Where it has none the lookup gives
  \<open>undefined\<close>, and calling \<^verbatim>\<open>replace\<close> on that throws a \<open>TypeError\<close>. The right
  operand of \<^verbatim>\<open>||\<close> is evaluated only when \<^verbatim>\<open>body.name\<close> is falsy.
  \<^verbatim>\<open>when.reject(err)\<close> is the promise \<open>Rejected err\<close>.
\<close>

definition rejectResponse ::
  "(int \<Rightarrow> string option) \<Rightarrow> response \<Rightarrow> js_error + (jsval, client_error) promise" where
  "rejectResponse STATUS_CODES response =
     (let body = js_or (resp_body response) (JObj []);
          err = new_Error (js_or (js_get body ''message'') (resp_text response));
          err = err\<lparr>err_code := js_or (js_get body ''code'') (JNum (resp_status response))\<rparr>
      in
        if truthy (js_get body ''name'')
        then Inr (Rejected (err\<lparr>err_name := js_get body ''name'',
                                 err_response := Some response\<rparr>))
        else
          (case STATUS_CODES (resp_status response) of
             None \<Rightarrow> Inl (TypeError ''Cannot read property replace of undefined'')
           | Some phrase \<Rightarrow>
               Inr (Rejected (err\<lparr>err_name := JStr (remove_space phrase @ ''Error''),
                                   err_response := Some response\<rparr>))))"

section \<open>The proxying sub-application\<close>

text \<open>
  The options handed to Node's \<^verbatim>\<open>http.request\<close> or \<^verbatim>\<open>https.request\<close>, and the
  request they create: which of the two transports it belongs to, with its options.
\<close>

record core_options =
  opt_protocol :: jsval
  opt_method :: string
  opt_hostname :: jsval
  opt_port :: jsval
  opt_path :: jsval
  opt_headers :: "(string \<times> jsval) list"

datatype core_request = HttpRequest core_options | HttpsRequest core_options

definition createCoreRequest :: "core_options \<Rightarrow> js_error + core_request" where
  "createCoreRequest options =
     (if opt_protocol options = JStr ''http:'' then Inr (HttpRequest options)
      else if opt_protocol options = JStr ''https:'' then Inr (HttpsRequest options)
      else Inl (Error (''Invalid protocol, '' @ js_to_string (opt_protocol options)
                        @ ''. Check rootUrl.'')))"

text \<open>The names of an object's own properties, each once, in order.\<close>

definition keys :: "(string \<times> 'a) list \<Rightarrow> string list" where
  "keys kvs = remdups (map fst kvs)"

text \<open>
  Node's \<^verbatim>\<open>util._extend(origin, add)\<close>: walks the keys of \<open>add\<close> from the last to the
  first and assigns \<^verbatim>\<open>origin[key] = add[key]\<close>. Property names are case-sensitive.
\<close>

definition util_extend :: "(string \<times> jsval) list \<Rightarrow> (string \<times> jsval) list \<Rightarrow> (string \<times> jsval) list" where
  "util_extend origin add = fold (\<lambda>k. AList.update k (js_get (JObj add) k)) (rev (keys add)) origin"

text \<open>The request the sub-application receives from the browser; its body is a stream of chunks.\<close>

record inbound =
  in_method :: string
  in_url :: string
  in_headers :: "(string \<times> jsval) list"
  in_body :: "string list"

text \<open>
  The options object the handler builds for the upstream request. (\<^verbatim>\<open>util._extend\<close>
  assigns into \<^verbatim>\<open>req.headers\<close> itself; the handler reads the inbound headers
  afterwards only to log them.)
\<close>

definition subapp_options :: "(string \<Rightarrow> parsed_url) \<Rightarrow> client \<Rightarrow> inbound \<Rightarrow> core_options" where
  "subapp_options url_parse self req =
     (let href = getUrl url_parse self (in_url req);
          parsedUrl = url_parse href
      in \<lparr>opt_protocol = url_protocol parsedUrl,
          opt_method = in_method req,
          opt_hostname = url_hostname parsedUrl,
          opt_port = url_port parsedUrl,
          opt_path = url_path parsedUrl,
          opt_headers = util_extend (in_headers req)
            [(''Connection'', JStr ''Keep-Alive''),
             (''Host'', url_host parsedUrl),
             (''Origin'', url_host parsedUrl)]\<rparr>)"

text \<open>
  The first half of the handler, up to \<^verbatim>\<open>req.pipe(outgoing)\<close>: the upstream request it
  created and the chunks piped into it. When \<open>createCoreRequest\<close> throws, the handler
  stops there. The calls to the logger are left out.
\<close>

record proxied =
  px_request :: core_request
  px_body :: "string list"

definition subapp_request ::
  "(string \<Rightarrow> parsed_url) \<Rightarrow> client \<Rightarrow> inbound \<Rightarrow> js_error + proxied" where
  "subapp_request url_parse self req =
     (case createCoreRequest (subapp_options url_parse self req) of
        Inl e \<Rightarrow> Inl e
      | Inr outgoing \<Rightarrow> Inr \<lparr>px_request = outgoing, px_body = in_body req\<rparr>)"

text \<open>
  \<^verbatim>\<open>name.toLowerCase()\<close> on a header name. Header names are HTTP tokens, so only the
  letters \<open>A\<close> to \<open>Z\<close> change.
\<close>

definition lower_char :: "char \<Rightarrow> char" where
  "lower_char c =
     (case map_of (zip ''ABCDEFGHIJKLMNOPQRSTUVWXYZ'' ''abcdefghijklmnopqrstuvwxyz'') c of
        Some l \<Rightarrow> l
      | None \<Rightarrow> c)"

definition toLowerCase :: "string \<Rightarrow> string" where
  "toLowerCase s = map lower_char s"

text \<open>
  The header fields that \<^verbatim>\<open>http.request(options)\<close> or \<^verbatim>\<open>https.request(options)\<close>
  sets on the request it creates from the headers object of the options. Node calls
  \<^verbatim>\<open>setHeader(key, options.headers[key])\<close> for the keys of the object in order, and
  \<^verbatim>\<open>setHeader\<close> keeps one field per name without regard to case (it files the field
  under the lower-case name), so a later key replaces an earlier one that differs from
  it only in case.
\<close>

definition request_headers :: "(string \<times> jsval) list \<Rightarrow> (string \<times> jsval) list" where
  "request_headers hs =
     fold (\<lambda>k. AList.update (toLowerCase k) (js_get (JObj hs) k)) (keys hs) []"

text \<open>
  The value of a header field as Node holds it: a string, or a list of strings for a
  field sent several times (\<open>Set-Cookie\<close>).
\<close>

datatype header_value = Single string | Multi "string list"

text \<open>
  The upstream response (Node's \<open>IncomingMessage\<close>) and the response object Express
  hands to the handler, with what it holds so far: a status code, the header fields set,
  each under its lower-case name, and the chunks written.
\<close>

record upstream =
  up_statusCode :: int
  up_headers :: "(string \<times> header_value) list"
  up_body :: "string list"

record express_res =
  out_statusCode :: int
  out_headers :: "(string \<times> header_value) list"
  out_body :: "string list"

text \<open>Express's \<^verbatim>\<open>res.status(code)\<close>.\<close>

definition res_status :: "int \<Rightarrow> express_res \<Rightarrow> express_res" where
  "res_status c res = res\<lparr>out_statusCode := c\<rparr>"

text \<open>
  Node's \<^verbatim>\<open>res.setHeader(name, value)\<close>: one field per name, without regard to case.
\<close>

definition setHeader :: "string \<Rightarrow> header_value \<Rightarrow> express_res \<Rightarrow> express_res" where
  "setHeader name v res =
     res\<lparr>out_headers := AList.update (toLowerCase name) v (out_headers res)\<rparr>"

text \<open>
  Express's \<^verbatim>\<open>res.set(field, val)\<close>. For \<open>Content-Type\<close> Express refuses a list and may
  rewrite the value before storing it (Express 4 appends \<^verbatim>\<open>; charset=utf-8\<close> to a text
  type that names no charset). The rewriting differs between releases of Express and is
  the parameter \<open>content_type\<close>; every other field is stored as given.
\<close>

definition res_set_field ::
  "(string \<Rightarrow> string) \<Rightarrow> string \<Rightarrow> header_value \<Rightarrow> express_res \<Rightarrow> js_error + express_res" where
  "res_set_field content_type field val res =
     (if toLowerCase field = ''content-type'' then
        (case val of
           Multi vs \<Rightarrow> Inl (TypeError ''Content-Type cannot be set to an Array'')
         | Single v \<Rightarrow> Inr (setHeader field (Single (content_type v)) res))
      else Inr (setHeader field val res))"

text \<open>
  \<^verbatim>\<open>res.set(object)\<close>: \<^verbatim>\<open>for (var key in field) this.set(key, field[key])\<close>, stopping
  at the first call that throws.
\<close>

fun res_set_keys ::
  "(string \<Rightarrow> string) \<Rightarrow> (string \<times> header_value) list \<Rightarrow> string list \<Rightarrow> express_res
     \<Rightarrow> js_error + express_res" where
  "res_set_keys content_type field [] res = Inr res"
| "res_set_keys content_type field (k # ks) res =
     (case map_of field k of
        None \<Rightarrow> res_set_keys content_type field ks res
      | Some v \<Rightarrow>
          (case res_set_field content_type k v res of
             Inl e \<Rightarrow> Inl e
           | Inr res' \<Rightarrow> res_set_keys content_type field ks res'))"

definition res_set ::
  "(string \<Rightarrow> string) \<Rightarrow> (string \<times> header_value) list \<Rightarrow> express_res \<Rightarrow> js_error + express_res" where
  "res_set content_type field res = res_set_keys content_type field (keys field) res"

text \<open>What \<^verbatim>\<open>res.set(object)\<close> stores for the key \<open>k\<close> of the object.\<close>

definition stored_field ::
  "(string \<Rightarrow> string) \<Rightarrow> (string \<times> header_value) list \<Rightarrow> string \<Rightarrow> header_value" where
  "stored_field content_type field k =
     (case map_of field k of
        Some (Single s) \<Rightarrow>
          if toLowerCase k = ''content-type'' then Single (content_type s) else Single s
      | Some (Multi vs) \<Rightarrow> Multi vs
      | None \<Rightarrow> Single [])"

text \<open>\<^verbatim>\<open>incoming.pipe(res)\<close> writes the chunks in order.\<close>

definition pipe :: "string list \<Rightarrow> express_res \<Rightarrow> express_res" where
  "pipe chunks res = res\<lparr>out_body := out_body res @ chunks\<rparr>"

text \<open>
  The listener for the upstream request's \<^verbatim>\<open>'response'\<close> event: status, headers, body,
  in this order. The calls to the logger are left out.
\<close>

definition subapp_response ::
  "(string \<Rightarrow> string) \<Rightarrow> upstream \<Rightarrow> express_res \<Rightarrow> js_error + express_res" where
  "subapp_response content_type incoming res =
     (case res_set content_type (up_headers incoming)
             (res_status (up_statusCode incoming) res) of
        Inl e \<Rightarrow> Inl e
      | Inr res' \<Rightarrow> Inr (pipe (up_body incoming) res'))"

section \<open>Concrete surroundings for the examples\<close>

text \<open>
  Node's \<^verbatim>\<open>http.STATUS_CODES\<close>. The wording of a few phrases differs between releases
  of Node; the theorems about \<open>rejectResponse\<close> hold for every table.
\<close>

definition node_STATUS_CODES :: "int \<Rightarrow> string option" where
  "node_STATUS_CODES = map_of
     [(100, ''Continue''), (101, ''Switching Protocols''), (102, ''Processing''),
      (103, ''Early Hints''),
      (200, ''OK''), (201, ''Created''), (202, ''Accepted''),
      (203, ''Non-Authoritative Information''), (204, ''No Content''),
      (205, ''Reset Content''), (206, ''Partial Content''), (207, ''Multi-Status''),
      (208, ''Already Reported''), (226, ''IM Used''),
      (300, ''Multiple Choices''), (301, ''Moved Permanently''), (302, ''Found''),
      (303, ''See Other''), (304, ''Not Modified''), (305, ''Use Proxy''),
      (307, ''Temporary Redirect''), (308, ''Permanent Redirect''),
      (400, ''Bad Request''), (401, ''Unauthorized''), (402, ''Payment Required''),
      (403, ''Forbidden''), (404, ''Not Found''), (405, ''Method Not Allowed''),
      (406, ''Not Acceptable''), (407, ''Proxy Authentication Required''),
      (408, ''Request Timeout''), (409, ''Conflict''), (410, ''Gone''),
      (411, ''Length Required''), (412, ''Precondition Failed''),
      (413, ''Payload Too Large''), (414, ''URI Too Long''),
      (415, ''Unsupported Media Type''), (416, ''Range Not Satisfiable''),
      (417, ''Expectation Failed''), (418, ''I'' @ [CHR 39] @ ''m a Teapot''),
      (421, ''Misdirected Request''), (422, ''Unprocessable Entity''), (423, ''Locked''),
      (424, ''Failed Dependency''), (425, ''Too Early''), (426, ''Upgrade Required''),
      (428, ''Precondition Required''), (429, ''Too Many Requests''),
      (431, ''Request Header Fields Too Large''),
      (451, ''Unavailable For Legal Reasons''),
      (500, ''Internal Server Error''), (501, ''Not Implemented''), (502, ''Bad Gateway''),
      (503, ''Service Unavailable''), (504, ''Gateway Timeout''),
      (505, ''HTTP Version Not Supported''), (506, ''Variant Also Negotiates''),
      (507, ''Insufficient Storage''), (508, ''Loop Detected''),
      (509, ''Bandwidth Limit Exceeded''), (510, ''Not Extended''),
      (511, ''Network Authentication Required'')]"

text \<open>
  What \<^verbatim>\<open>url.parse\<close> returns for the URLs of the examples; every other string is
  treated as a relative path, which has neither protocol nor host.
\<close>

definition absolute_url :: "string \<Rightarrow> string \<Rightarrow> string \<Rightarrow> parsed_url" where
  "absolute_url scheme h p =
     \<lparr>url_protocol = JStr scheme, url_hostname = JStr h, url_host = JStr h,
      url_port = JNull, url_path = JStr p\<rparr>"

definition example_parse :: "string \<Rightarrow> parsed_url" where
  "example_parse s =
     (if s = ''https://other.example/x'' then absolute_url ''https:'' ''other.example'' ''/x''
      else if s = ''http://localhost/search'' then absolute_url ''http:'' ''localhost'' ''/search''
      else if s = ''https://api.example/v1/search?q=x''
        then absolute_url ''https:'' ''api.example'' ''/v1/search?q=x''
      else if s = ''ftp://files.example/pub'' then absolute_url ''ftp:'' ''files.example'' ''/pub''
      else \<lparr>url_protocol = JNull, url_hostname = JNull, url_host = JNull,
            url_port = JNull, url_path = JStr s\<rparr>)"

text \<open>
  What Express 4 stores for the \<open>Content-Type\<close> values of the examples: a charset is
  appended to \<^verbatim>\<open>text/plain\<close>; a value that names its charset, and a type that is not
  text, are stored as they are.
\<close>

definition example_content_type :: "string \<Rightarrow> string" where
  "example_content_type v =
     (if v = ''text/plain'' then ''text/plain; charset=utf-8'' else v)"

text \<open>A logging library whose factory returns a logger object labelled with the name.\<close>

definition example_mill :: "string \<Rightarrow> jsval" where
  "example_mill n = JObj [(''name'', JStr n)]"

section \<open>Properties\<close>

subsection \<open>Values\<close>



lemma js_or_undefined: "js_or JUndefined v = v"
  by (simp add: js_or_def)

text \<open>
  After \<^verbatim>\<open>options = options || {}\<close> a property read gives what it gives on the
  original value, with \<open>undefined\<close> for a missing or falsy \<open>options\<close>.
\<close>

lemma js_get_or_empty: "js_get (js_or options (JObj [])) k = js_get options k"
  by (cases options) (simp_all add: js_or_def)

subsection \<open>Construction\<close>

lemma ProxyClient_blank:
  "ProxyClient createMill blank options =
     \<lparr>rootUrl = js_or (js_get options ''rootUrl'') (JStr ''http://localhost''),
      logger = js_or (js_get options ''logger'') (createMill ''ProxyClient''),
      timeout = js_or (js_get options ''timeout'') (JNum 5000),
      authorization = JNull\<rparr>"
  by (simp add: ProxyClient_def blank_def js_get_or_empty js_or_undefined)

text \<open>
  Claim C10. For every options value given to the constructor, each of \<open>rootUrl\<close>,
  \<open>timeout\<close> and \<open>logger\<close> of the new client is the option's value when that is
  truthy, and the default when it is falsy (absent, \<open>null\<close>, \<open>0\<close>, the empty string):
  \<^verbatim>\<open>'http://localhost'\<close>, \<open>5000\<close>, and the logger made by \<open>createMill\<close>. So an empty
  \<open>rootUrl\<close> is not kept and a timeout of \<open>0\<close> becomes \<open>5000\<close>.
\<close>

theorem ProxyClient_falsy_defaults:
  assumes "new_ProxyClient createMill h options = (h', a)"
  shows "(rootUrl (h' ! a) =
            (if truthy (js_get options ''rootUrl'') then js_get options ''rootUrl''
             else JStr ''http://localhost''))
       \<and> (timeout (h' ! a) =
            (if truthy (js_get options ''timeout'') then js_get options ''timeout''
             else JNum 5000))
       \<and> (logger (h' ! a) =
            (if truthy (js_get options ''logger'') then js_get options ''logger''
             else createMill ''ProxyClient''))"
proof -
  have "h' ! a = ProxyClient createMill blank options"
    using assms by (auto simp add: new_ProxyClient_def)
  then show ?thesis
    by (simp add: ProxyClient_blank js_or_def)
qed

theorem ProxyClient_falsy_defaults_witness:
  "rootUrl (fst (new_ProxyClient example_mill []
      (JObj [(''rootUrl'', JStr ''''), (''timeout'', JNum 0), (''logger'', JNull)])) ! 0)
     = JStr ''http://localhost''
   \<and> timeout (fst (new_ProxyClient example_mill []
      (JObj [(''rootUrl'', JStr ''''), (''timeout'', JNum 0), (''logger'', JNull)])) ! 0)
     = JNum 5000
   \<and> logger (fst (new_ProxyClient example_mill []
      (JObj [(''rootUrl'', JStr ''''), (''timeout'', JNum 0), (''logger'', JNull)])) ! 0)
     = example_mill ''ProxyClient''"
  using ProxyClient_falsy_defaults [of example_mill "[]"
      "JObj [(''rootUrl'', JStr ''''), (''timeout'', JNum 0), (''logger'', JNull)]"
      "fst (new_ProxyClient example_mill []
         (JObj [(''rootUrl'', JStr ''''), (''timeout'', JNum 0), (''logger'', JNull)]))" 0]
  by (simp add: new_ProxyClient_def)

subsection \<open>Resolving a URL\<close>

text \<open>
  Claim C1. For every path, \<open>getUrl\<close> returns the path itself when \<^verbatim>\<open>url.parse\<close> finds
  a hostname in it, and otherwise the root URL followed by the path, character for
  character: nothing is normalised and no slash is dropped. (A root URL that is not a
  string is converted to one first.)
\<close>

theorem getUrl_absolute_or_concat:
  "(truthy (url_hostname (url_parse path)) \<longrightarrow> getUrl url_parse this path = path)
   \<and> (\<not> truthy (url_hostname (url_parse path)) \<longrightarrow>
        getUrl url_parse this path = js_to_string (rootUrl this) @ path)
   \<and> (\<not> truthy (url_hostname (url_parse path)) \<longrightarrow> rootUrl this = JStr r \<longrightarrow>
        getUrl url_parse this path = r @ path)"
  by (simp add: getUrl_def)

theorem getUrl_absolute_or_concat_witness:
  "getUrl example_parse (ProxyClient example_mill blank JUndefined) ''https://other.example/x''
     = ''https://other.example/x''
   \<and> getUrl example_parse (ProxyClient example_mill blank JUndefined) ''/search''
     = ''http://localhost/search''
   \<and> getUrl example_parse
        (ProxyClient example_mill blank (JObj [(''rootUrl'', JStr ''http://localhost/'')]))
        ''/a/../b'' = ''http://localhost//a/../b''"
proof -
  let ?c = "ProxyClient example_mill blank JUndefined"
  let ?d = "ProxyClient example_mill blank (JObj [(''rootUrl'', JStr ''http://localhost/'')])"
  have abs: "truthy (url_hostname (example_parse ''https://other.example/x''))"
    by (simp add: example_parse_def absolute_url_def)
  have rel1: "\<not> truthy (url_hostname (example_parse ''/search''))"
    by (simp add: example_parse_def)
  have rel2: "\<not> truthy (url_hostname (example_parse ''/a/../b''))"
    by (simp add: example_parse_def)
  have r1: "rootUrl ?c = JStr ''http://localhost''"
    by (simp add: ProxyClient_def blank_def js_or_def)
  have r2: "rootUrl ?d = JStr ''http://localhost/''"
    by (simp add: ProxyClient_def blank_def js_or_def)
  from getUrl_absolute_or_concat [of example_parse "''https://other.example/x''" ?c] abs
  have 1: "getUrl example_parse ?c ''https://other.example/x'' = ''https://other.example/x''"
    by blast
  from getUrl_absolute_or_concat [of example_parse "''/search''" ?c "''http://localhost''"] rel1 r1
  have 2: "getUrl example_parse ?c ''/search'' = ''http://localhost'' @ ''/search''"
    by blast
  from getUrl_absolute_or_concat [of example_parse "''/a/../b''" ?d "''http://localhost/''"] rel2 r2
  have 3: "getUrl example_parse ?d ''/a/../b'' = ''http://localhost/'' @ ''/a/../b''"
    by blast
  from 1 2 3 show ?thesis by simp
qed

subsection \<open>Deriving a child\<close>

lemma ProxyClient_ok:
  "truthy (createMill ''ProxyClient'') \<Longrightarrow> client_ok (ProxyClient createMill this options)"
  by (simp add: client_ok_def ProxyClient_def js_or_def Let_def)

lemma ProxyClient_of_parent:
  assumes "client_ok p"
  shows "ProxyClient createMill blank (client_obj p) =
           \<lparr>rootUrl = rootUrl p, logger = logger p, timeout = timeout p, authorization = JNull\<rparr>"
  using assms
  by (simp add: ProxyClient_blank client_obj_def client_ok_def js_or_def)

lemma client_ok_authorization: "client_ok (c\<lparr>authorization := a\<rparr>) = client_ok c"
  by (simp add: client_ok_def)

text \<open>
  With a logging library whose factory returns an object, every client in a store built
  by the constructor and \<open>getChild\<close> has a truthy configuration.
\<close>

lemma new_ProxyClient_ok:
  assumes "truthy (createMill ''ProxyClient'')" and "list_all client_ok h"
  shows "list_all client_ok (fst (new_ProxyClient createMill h options))"
  using assms by (simp add: new_ProxyClient_def ProxyClient_ok)

lemma getChild_ok:
  assumes "truthy (createMill ''ProxyClient'')" and "list_all client_ok h"
    and "getChild createMill h this options = Inr (h', child)"
  shows "list_all client_ok h'"
  using assms
  by (auto simp add: getChild_def createClient_def new_ProxyClient_def ProxyClient_ok
      client_ok_authorization split: if_splits)

text \<open>
  Claim C6. For a live client whose configuration is as a constructor leaves it, and
  options that are an object, \<open>getChild\<close> succeeds and returns a new object: its
  \<open>rootUrl\<close>, \<open>logger\<close> and \<open>timeout\<close> are the parent's, its authorization is
  \<^verbatim>\<open>options.auth\<close>, and every object that existed before, the parent with its
  authorization among them, is as it was.
\<close>

theorem getChild_frame:
  assumes live: "this < length h"
    and ok: "client_ok (h ! this)"
    and opts: "\<not> nullish options"
  shows "\<exists>h' child. getChild createMill h this options = Inr (h', child)
           \<and> child = length h \<and> length h' = Suc (length h)
           \<and> rootUrl (h' ! child) = rootUrl (h ! this)
           \<and> logger (h' ! child) = logger (h ! this)
           \<and> timeout (h' ! child) = timeout (h ! this)
           \<and> authorization (h' ! child) = js_get options ''auth''
           \<and> take (length h) h' = h
           \<and> h' ! this = h ! this"
proof -
  let ?c = "ProxyClient createMill blank (client_obj (h ! this))"
  let ?h' = "h @ [?c\<lparr>authorization := js_get options ''auth''\<rparr>]"
  have run: "getChild createMill h this options = Inr (?h', length h)"
    using live opts
    by (simp add: getChild_def createClient_def new_ProxyClient_def)
  have fields: "?c = \<lparr>rootUrl = rootUrl (h ! this), logger = logger (h ! this),
                       timeout = timeout (h ! this), authorization = JNull\<rparr>"
    using ok by (rule ProxyClient_of_parent)
  have parent: "?h' ! this = h ! this"
    using live by (simp add: nth_append)
  show ?thesis
    using run fields parent by simp
qed

theorem getChild_frame_witness:
  "getChild example_mill
     [\<lparr>rootUrl = JStr ''https://api.example/v1'', logger = example_mill ''ProxyClient'',
       timeout = JNum 5000, authorization = JStr ''parent-token''\<rparr>]
     0 (JObj [(''auth'', JStr ''tok'')])
   = Inr ([\<lparr>rootUrl = JStr ''https://api.example/v1'', logger = example_mill ''ProxyClient'',
            timeout = JNum 5000, authorization = JStr ''parent-token''\<rparr>,
           \<lparr>rootUrl = JStr ''https://api.example/v1'', logger = example_mill ''ProxyClient'',
            timeout = JNum 5000, authorization = JStr ''tok''\<rparr>], 1)"
proof -
  let ?p = "\<lparr>rootUrl = JStr ''https://api.example/v1'', logger = example_mill ''ProxyClient'',
             timeout = JNum 5000, authorization = JStr ''parent-token''\<rparr>"
  let ?o = "JObj [(''auth'', JStr ''tok'')]"
  have a: "0 < length [?p]" by simp
  have b: "client_ok ([?p] ! 0)" by (simp add: client_ok_def example_mill_def)
  have c: "\<not> nullish ?o" by simp
  from getChild_frame [OF a b c, of example_mill]
  obtain h' child where r: "getChild example_mill [?p] 0 ?o = Inr (h', child)"
    and n: "child = length [?p]" and l: "length h' = Suc (length [?p])"
    and f: "rootUrl (h' ! child) = rootUrl ([?p] ! 0)"
           "logger (h' ! child) = logger ([?p] ! 0)"
           "timeout (h' ! child) = timeout ([?p] ! 0)"
           "authorization (h' ! child) = js_get ?o ''auth''"
    and t: "take (length [?p]) h' = [?p]"
    by blast
  from l obtain x y where h': "h' = [x, y]"
    by (cases h'; cases "tl h'"; auto)
  from t h' have x: "x = ?p" by simp
  from f n h' have y: "y = \<lparr>rootUrl = JStr ''https://api.example/v1'',
      logger = example_mill ''ProxyClient'', timeout = JNum 5000, authorization = JStr ''tok''\<rparr>"
    by (cases y) simp
  from r n h' x y show ?thesis by simp
qed

subsection \<open>The Authorization header of a request\<close>

text \<open>
  Claim C7, as the code has it. Every request built by \<open>request\<close>, and so by each of
  the four verb wrappers, has exactly one header field set, \<open>Authorization\<close>, and its
  value is the client's current authorization, whatever that value is: the field is set
  unconditionally, also when the authorization is \<open>null\<close>.
\<close>

theorem request_authorization_header:
  "sa_header (request url_parse this m path) = [(''Authorization'', authorization this)]
   \<and> length (filter (\<lambda>kv. fst kv = ''Authorization'')
         (sa_header (request url_parse this m path))) = 1
   \<and> map_of (sa_header (request url_parse this m path)) ''Authorization''
        = Some (authorization this)
   \<and> sa_header (get url_parse this path) = [(''Authorization'', authorization this)]
   \<and> sa_header (post url_parse this path) = [(''Authorization'', authorization this)]
   \<and> sa_header (put url_parse this path) = [(''Authorization'', authorization this)]
   \<and> sa_header (del url_parse this path) = [(''Authorization'', authorization this)]"
  by (simp add: request_def get_def post_def put_def del_def superagent_def sa_set_def
      sa_set_timeout_def sa_use_def sa_on_def Let_def)

text \<open>
  The claim's last part fails: a client fresh from the constructor has no authorization,
  and its request still has the \<open>Authorization\<close> field set, to \<open>null\<close>.
\<close>

theorem request_null_authorization_counterexample:
  "authorization (ProxyClient example_mill blank JUndefined) = JNull
   \<and> map_of (sa_header (request example_parse (ProxyClient example_mill blank JUndefined)
         ''GET'' ''/search'')) ''Authorization'' = Some JNull"
  by (simp add: request_def superagent_def sa_set_def sa_set_timeout_def sa_use_def sa_on_def
      Let_def ProxyClient_def)

subsection \<open>The error built from a response\<close>



lemma rejectResponse_no_phrase:
  assumes "\<not> truthy (js_get (resp_body r) ''name'')"
    and "STATUS_CODES (resp_status r) = None"
  shows "rejectResponse STATUS_CODES r =
           Inl (TypeError ''Cannot read property replace of undefined'')"
  using assms
  by (simp add: rejectResponse_def Let_def js_get_or_empty new_Error_def)



lemma node_520: "node_STATUS_CODES 520 = None"
  by (simp add: node_STATUS_CODES_def)




text \<open>
  Claim C4 does not hold of the code. A response whose status code has no phrase in
  Node's table, such as 520, and whose body has no \<open>name\<close>, makes \<open>rejectResponse\<close> throw
  a \<open>TypeError\<close> instead of returning a rejected promise.
\<close>

theorem rejectResponse_throws_without_phrase:
  "rejectResponse node_STATUS_CODES
     \<lparr>resp_status = 520, resp_text = JStr ''origin error'', resp_body = JObj [],
      resp_headers = []\<rparr>
   = Inl (TypeError ''Cannot read property replace of undefined'')"
  by (simp add: rejectResponse_no_phrase node_520)

subsection \<open>The transport helper\<close>

lemma createCoreRequest_invalid:
  assumes "opt_protocol options \<noteq> JStr ''http:''" and "opt_protocol options \<noteq> JStr ''https:''"
  shows "createCoreRequest options =
           Inl (Error (''Invalid protocol, '' @ js_to_string (opt_protocol options)
                         @ ''. Check rootUrl.''))"
  using assms by (simp add: createCoreRequest_def)

lemma subapp_options_protocol:
  "opt_protocol (subapp_options url_parse self req) =
     url_protocol (url_parse (getUrl url_parse self (in_url req)))"
  by (simp add: subapp_options_def Let_def)

text \<open>
  Claim C5. For options whose protocol is neither \<^verbatim>\<open>'http:'\<close> nor \<^verbatim>\<open>'https:'\<close> the
  helper throws the \<open>Invalid protocol\<close> error and creates no request on either
  transport; for \<^verbatim>\<open>'http:'\<close> it creates the request on the plain transport and for
  \<^verbatim>\<open>'https:'\<close> on the TLS one. The constructor accepts a root URL of any scheme and
  keeps it, \<open>request\<close> builds its superagent request for any URL, and the proxying handler
  fails with that error exactly when the protocol of its target URL is neither of the two.
\<close>

theorem createCoreRequest_protocol:
  "(opt_protocol options = JStr ''http:'' \<longrightarrow>
      createCoreRequest options = Inr (HttpRequest options))
   \<and> (opt_protocol options = JStr ''https:'' \<longrightarrow>
      createCoreRequest options = Inr (HttpsRequest options))
   \<and> (opt_protocol options \<noteq> JStr ''http:'' \<and> opt_protocol options \<noteq> JStr ''https:'' \<longrightarrow>
      createCoreRequest options =
        Inl (Error (''Invalid protocol, '' @ js_to_string (opt_protocol options)
                      @ ''. Check rootUrl.'')))
   \<and> (r \<noteq> [] \<longrightarrow>
      rootUrl (ProxyClient createMill blank (JObj [(''rootUrl'', JStr r)])) = JStr r)
   \<and> sa_url (request url_parse self m path) = getUrl url_parse self path
   \<and> ((\<exists>e. subapp_request url_parse self req = Inl e) \<longleftrightarrow>
        url_protocol (url_parse (getUrl url_parse self (in_url req))) \<noteq> JStr ''http:''
        \<and> url_protocol (url_parse (getUrl url_parse self (in_url req))) \<noteq> JStr ''https:'')
   \<and> (\<forall>e. subapp_request url_parse self req = Inl e \<longrightarrow>
        e = Error (''Invalid protocol, ''
              @ js_to_string (url_protocol (url_parse (getUrl url_parse self (in_url req))))
              @ ''. Check rootUrl.''))"
proof -
  have ctor: "r \<noteq> [] \<longrightarrow>
      rootUrl (ProxyClient createMill blank (JObj [(''rootUrl'', JStr r)])) = JStr r"
    by (simp add: ProxyClient_blank js_or_def)
  have req: "sa_url (request url_parse self m path) = getUrl url_parse self path"
    by (simp add: request_def superagent_def sa_set_def sa_set_timeout_def sa_use_def
        sa_on_def Let_def)
  have fails: "(\<exists>e. subapp_request url_parse self req = Inl e) \<longleftrightarrow>
        url_protocol (url_parse (getUrl url_parse self (in_url req))) \<noteq> JStr ''http:''
        \<and> url_protocol (url_parse (getUrl url_parse self (in_url req))) \<noteq> JStr ''https:''"
    by (simp add: subapp_request_def createCoreRequest_def subapp_options_protocol)
  have err: "\<forall>e. subapp_request url_parse self req = Inl e \<longrightarrow>
        e = Error (''Invalid protocol, ''
              @ js_to_string (url_protocol (url_parse (getUrl url_parse self (in_url req))))
              @ ''. Check rootUrl.'')"
    by (auto simp add: subapp_request_def createCoreRequest_def subapp_options_protocol
        split: if_splits)
  show ?thesis
    using ctor req fails err by (simp add: createCoreRequest_def)
qed

theorem createCoreRequest_protocol_witness:
  "createCoreRequest
     \<lparr>opt_protocol = JStr ''ftp:'', opt_method = ''GET'', opt_hostname = JStr ''files.example'',
      opt_port = JNull, opt_path = JStr ''/pub'', opt_headers = []\<rparr>
     = Inl (Error ''Invalid protocol, ftp:. Check rootUrl.'')
   \<and> createCoreRequest
     \<lparr>opt_protocol = JStr ''http:'', opt_method = ''GET'', opt_hostname = JStr ''localhost'',
      opt_port = JNull, opt_path = JStr ''/search'', opt_headers = []\<rparr>
     = Inr (HttpRequest
         \<lparr>opt_protocol = JStr ''http:'', opt_method = ''GET'', opt_hostname = JStr ''localhost'',
          opt_port = JNull, opt_path = JStr ''/search'', opt_headers = []\<rparr>)
   \<and> createCoreRequest
     \<lparr>opt_protocol = JStr ''https:'', opt_method = ''GET'', opt_hostname = JStr ''api.example'',
      opt_port = JNull, opt_path = JStr ''/v1'', opt_headers = []\<rparr>
     = Inr (HttpsRequest
         \<lparr>opt_protocol = JStr ''https:'', opt_method = ''GET'', opt_hostname = JStr ''api.example'',
          opt_port = JNull, opt_path = JStr ''/v1'', opt_headers = []\<rparr>)
   \<and> rootUrl (ProxyClient example_mill blank (JObj [(''rootUrl'', JStr ''ftp://files.example'')]))
     = JStr ''ftp://files.example''
   \<and> subapp_request example_parse
       (ProxyClient example_mill blank (JObj [(''rootUrl'', JStr ''ftp://files.example'')]))
       \<lparr>in_method = ''GET'', in_url = ''/pub'', in_headers = [], in_body = []\<rparr>
     = Inl (Error ''Invalid protocol, ftp:. Check rootUrl.'')"
proof -
  let ?ftp = "\<lparr>opt_protocol = JStr ''ftp:'', opt_method = ''GET'',
      opt_hostname = JStr ''files.example'', opt_port = JNull, opt_path = JStr ''/pub'',
      opt_headers = []\<rparr>"
  let ?http = "\<lparr>opt_protocol = JStr ''http:'', opt_method = ''GET'',
      opt_hostname = JStr ''localhost'', opt_port = JNull, opt_path = JStr ''/search'',
      opt_headers = []\<rparr>"
  let ?https = "\<lparr>opt_protocol = JStr ''https:'', opt_method = ''GET'',
      opt_hostname = JStr ''api.example'', opt_port = JNull, opt_path = JStr ''/v1'',
      opt_headers = []\<rparr>"
  let ?c = "ProxyClient example_mill blank (JObj [(''rootUrl'', JStr ''ftp://files.example'')])"
  let ?req = "\<lparr>in_method = ''GET'', in_url = ''/pub'', in_headers = [], in_body = []\<rparr>"
  have root: "rootUrl ?c = JStr ''ftp://files.example''"
    using createCoreRequest_protocol [where r = "''ftp://files.example''"
        and createMill = example_mill]
    by simp
  have url: "getUrl example_parse ?c (in_url ?req) = ''ftp://files.example/pub''"
    by (simp add: getUrl_def example_parse_def root)
  have proto: "url_protocol (example_parse ''ftp://files.example/pub'') = JStr ''ftp:''"
    by (simp add: example_parse_def absolute_url_def)
  from createCoreRequest_protocol [where url_parse = example_parse and self = ?c and req = ?req]
  have "\<exists>e. subapp_request example_parse ?c ?req = Inl e"
    unfolding url proto by simp
  then obtain e where e: "subapp_request example_parse ?c ?req = Inl e" ..
  with createCoreRequest_protocol [where url_parse = example_parse and self = ?c and req = ?req]
  have "e = Error (''Invalid protocol, '' @ js_to_string (JStr ''ftp:'') @ ''. Check rootUrl.'')"
    unfolding url proto by blast
  with e have proxied: "subapp_request example_parse ?c ?req
      = Inl (Error ''Invalid protocol, ftp:. Check rootUrl.'')"
    by simp
  have a: "createCoreRequest ?ftp = Inl (Error ''Invalid protocol, ftp:. Check rootUrl.'')"
    using createCoreRequest_protocol [where options = ?ftp] by simp
  have b: "createCoreRequest ?http = Inr (HttpRequest ?http)"
    using createCoreRequest_protocol [where options = ?http] by simp
  have c: "createCoreRequest ?https = Inr (HttpsRequest ?https)"
    using createCoreRequest_protocol [where options = ?https] by simp
  from a b c root proxied show ?thesis by simp
qed

subsection \<open>The upstream request of the proxy\<close>

lemma lower_Connection: "toLowerCase ''Connection'' = ''connection''"
  by (simp add: toLowerCase_def lower_char_def)

lemma lower_Host: "toLowerCase ''Host'' = ''host''"
  by (simp add: toLowerCase_def lower_char_def)

lemma lower_Origin: "toLowerCase ''Origin'' = ''origin''"
  by (simp add: toLowerCase_def lower_char_def)

text \<open>
  Assigning fields one after the other, each filed under \<open>g\<close> of its key: the value
  found under a name is that of the last key filed there.
\<close>

lemma fold_update_last:
  "map_of (fold (\<lambda>k. AList.update (g k) (f k)) ks al) n =
     (case filter (\<lambda>k. g k = n) ks of
        [] \<Rightarrow> map_of al n
      | k # ks' \<Rightarrow> Some (f (last (k # ks'))))"
  by (induction ks arbitrary: al) (auto simp add: update_conv' split: list.splits)

lemma update_fresh: "k \<notin> fst ` set al \<Longrightarrow> AList.update k v al = al @ [(k, v)]"
  by (induction al) auto

lemma remdups_append_disjoint:
  "set xs \<inter> set ys = {} \<Longrightarrow> remdups (xs @ ys) = remdups xs @ remdups ys"
  by (induction xs) auto

lemma keys_append:
  "fst ` set xs \<inter> fst ` set ys = {} \<Longrightarrow> keys (xs @ ys) = keys xs @ keys ys"
  by (simp add: keys_def remdups_append_disjoint)

lemma set_keys: "set (keys kvs) = fst ` set kvs"
  by (simp add: keys_def)

lemma js_get_append_left:
  "k \<in> fst ` set xs \<Longrightarrow> js_get (JObj (xs @ ys)) k = js_get (JObj xs) k"
  by (auto simp add: map_add_def weak_map_of_SomeI split: option.splits
      dest: map_of_eq_None_iff [THEN iffD1])

lemma js_get_append_right:
  "k \<notin> fst ` set xs \<Longrightarrow> js_get (JObj (xs @ ys)) k = js_get (JObj ys) k"
  by (simp add: map_add_def map_of_eq_None_iff [THEN iffD2])

lemma case_last:
  "zs \<noteq> [] \<Longrightarrow> (case zs of [] \<Rightarrow> a | k # ks \<Rightarrow> F (last (k # ks))) = F (last zs)"
  by (cases zs) simp_all

lemma request_headers_append:
  assumes disj: "fst ` set inb \<inter> fst ` set new = {}"
  shows "map_of (request_headers (inb @ new)) n =
     (case filter (\<lambda>k. toLowerCase k = n) (keys new) of
        [] \<Rightarrow> map_of (request_headers inb) n
      | k # ks \<Rightarrow> Some (js_get (JObj new) (last (k # ks))))"
proof (cases "filter (\<lambda>k. toLowerCase k = n) (keys new)")
  case Nil
  show ?thesis
  proof (cases "filter (\<lambda>k. toLowerCase k = n) (keys inb)")
    case inbNil: Nil
    with Nil show ?thesis
      by (simp add: request_headers_def fold_update_last keys_append [OF disj])
  next
    case (Cons k ks)
    have "last (k # ks) \<in> set (filter (\<lambda>k. toLowerCase k = n) (keys inb))"
      unfolding Cons by (rule last_in_set) simp
    then have "last (k # ks) \<in> fst ` set inb"
      by (simp add: set_keys)
    then have "js_get (JObj (inb @ new)) (last (k # ks)) = js_get (JObj inb) (last (k # ks))"
      by (rule js_get_append_left)
    with Nil Cons show ?thesis
      by (simp add: request_headers_def fold_update_last keys_append [OF disj])
  qed
next
  case (Cons t ts)
  have "last (t # ts) \<in> set (filter (\<lambda>k. toLowerCase k = n) (keys new))"
    unfolding Cons by (rule last_in_set) simp
  then have "last (t # ts) \<in> fst ` set new"
    by (simp add: set_keys)
  with disj have "last (t # ts) \<notin> fst ` set inb"
    by blast
  then have get: "js_get (JObj (inb @ new)) (last (t # ts)) = js_get (JObj new) (last (t # ts))"
    by (rule js_get_append_right)
  have "filter (\<lambda>k. toLowerCase k = n) (keys (inb @ new))
      = filter (\<lambda>k. toLowerCase k = n) (keys inb) @ t # ts"
    by (simp add: keys_append [OF disj] Cons)
  moreover have "map_of (request_headers (inb @ new)) n =
      (case filter (\<lambda>k. toLowerCase k = n) (keys (inb @ new)) of
         [] \<Rightarrow> None
       | k # ks \<Rightarrow> Some (js_get (JObj (inb @ new)) (last (k # ks))))"
    by (simp only: request_headers_def fold_update_last map_of.simps)
  moreover have "(case filter (\<lambda>k. toLowerCase k = n) (keys inb) @ t # ts of
         [] \<Rightarrow> None
       | k # ks \<Rightarrow> Some (js_get (JObj (inb @ new)) (last (k # ks))))
      = Some (js_get (JObj (inb @ new)) (last (filter (\<lambda>k. toLowerCase k = n) (keys inb) @ t # ts)))"
    by (rule case_last) simp
  ultimately have "map_of (request_headers (inb @ new)) n
      = Some (js_get (JObj (inb @ new)) (last (t # ts)))"
    by simp
  with get Cons show ?thesis by simp
qed

lemma subapp_headers:
  "opt_headers (subapp_options url_parse self req) =
     AList.update ''Connection'' (JStr ''Keep-Alive'')
       (AList.update ''Host'' (url_host (url_parse (getUrl url_parse self (in_url req))))
         (AList.update ''Origin'' (url_host (url_parse (getUrl url_parse self (in_url req))))
           (in_headers req)))"
  by (simp add: subapp_options_def Let_def util_extend_def keys_def)

text \<open>Inbound names in lower case: the three fields are added after the inbound ones.\<close>

lemma subapp_headers_lower:
  assumes lower: "\<forall>k \<in> fst ` set (in_headers req). toLowerCase k = k"
  shows "opt_headers (subapp_options url_parse self req) =
     in_headers req @
       [(''Origin'', url_host (url_parse (getUrl url_parse self (in_url req)))),
        (''Host'', url_host (url_parse (getUrl url_parse self (in_url req)))),
        (''Connection'', JStr ''Keep-Alive'')]"
    and "fst ` set (in_headers req) \<inter>
      fst ` set [(''Origin'', url_host (url_parse (getUrl url_parse self (in_url req)))),
        (''Host'', url_host (url_parse (getUrl url_parse self (in_url req)))),
        (''Connection'', JStr ''Keep-Alive'')] = {}"
proof -
  have o: "''Origin'' \<notin> fst ` set (in_headers req)"
    using lower lower_Origin by force
  have h: "''Host'' \<notin> fst ` set (in_headers req)"
    using lower lower_Host by force
  have c: "''Connection'' \<notin> fst ` set (in_headers req)"
    using lower lower_Connection by force
  show "opt_headers (subapp_options url_parse self req) =
     in_headers req @
       [(''Origin'', url_host (url_parse (getUrl url_parse self (in_url req)))),
        (''Host'', url_host (url_parse (getUrl url_parse self (in_url req)))),
        (''Connection'', JStr ''Keep-Alive'')]"
    using o h c by (simp add: subapp_headers update_fresh)
  show "fst ` set (in_headers req) \<inter>
      fst ` set [(''Origin'', url_host (url_parse (getUrl url_parse self (in_url req)))),
        (''Host'', url_host (url_parse (getUrl url_parse self (in_url req)))),
        (''Connection'', JStr ''Keep-Alive'')] = {}"
    using o h c by simp
qed

lemma subapp_request_headers:
  assumes lower: "\<forall>k \<in> fst ` set (in_headers req). toLowerCase k = k"
  shows "map_of (request_headers (opt_headers (subapp_options url_parse self req))) n =
     (if n = ''connection'' then Some (JStr ''Keep-Alive'')
      else if n = ''host'' \<or> n = ''origin''
        then Some (url_host (url_parse (getUrl url_parse self (in_url req))))
      else map_of (request_headers (in_headers req)) n)"
  unfolding subapp_headers_lower(1) [OF lower]
    request_headers_append [OF subapp_headers_lower(2) [OF lower]]
  by (simp add: keys_def lower_Connection lower_Host lower_Origin)

text \<open>
  Claim C8. For every inbound request, the options of the upstream request are the
  components of the parsed target URL, which is \<open>getUrl\<close> of the inbound path, with the
  inbound method, and its headers object is the inbound one with \<open>Connection\<close>, \<open>Host\<close>
  and \<open>Origin\<close> assigned. The request is created with exactly these options, on the
  plain transport for an \<^verbatim>\<open>http:\<close> target and on the TLS transport for an
  \<^verbatim>\<open>https:\<close> one. With inbound header names in lower case, as Node delivers them, the
  header fields of the request created are the inbound ones, except that \<open>connection\<close>
  is \<open>Keep-Alive\<close> and \<open>host\<close> and \<open>origin\<close> are the target's host, whatever the
  inbound request said under these names.
\<close>

theorem subapp_upstream_request:
  fixes url_parse :: "string \<Rightarrow> parsed_url" and self :: client and req :: inbound
  defines "target \<equiv> url_parse (getUrl url_parse self (in_url req))"
    and "opts \<equiv> subapp_options url_parse self req"
  shows "opt_protocol opts = url_protocol target
   \<and> opt_hostname opts = url_hostname target
   \<and> opt_port opts = url_port target
   \<and> opt_path opts = url_path target
   \<and> opt_method opts = in_method req
   \<and> opt_headers opts =
       AList.update ''Connection'' (JStr ''Keep-Alive'')
         (AList.update ''Host'' (url_host target)
           (AList.update ''Origin'' (url_host target) (in_headers req)))
   \<and> (url_protocol target = JStr ''http:'' \<longrightarrow>
        subapp_request url_parse self req
          = Inr \<lparr>px_request = HttpRequest opts, px_body = in_body req\<rparr>)
   \<and> (url_protocol target = JStr ''https:'' \<longrightarrow>
        subapp_request url_parse self req
          = Inr \<lparr>px_request = HttpsRequest opts, px_body = in_body req\<rparr>)
   \<and> ((\<forall>k \<in> fst ` set (in_headers req). toLowerCase k = k) \<longrightarrow>
        map_of (request_headers (opt_headers opts)) ''connection'' = Some (JStr ''Keep-Alive'')
        \<and> map_of (request_headers (opt_headers opts)) ''host'' = Some (url_host target)
        \<and> map_of (request_headers (opt_headers opts)) ''origin'' = Some (url_host target)
        \<and> (\<forall>n. n \<noteq> ''connection'' \<and> n \<noteq> ''host'' \<and> n \<noteq> ''origin'' \<longrightarrow>
             map_of (request_headers (opt_headers opts)) n
               = map_of (request_headers (in_headers req)) n))"
proof -
  have parts: "opt_protocol opts = url_protocol target
     \<and> opt_hostname opts = url_hostname target
     \<and> opt_port opts = url_port target
     \<and> opt_path opts = url_path target
     \<and> opt_method opts = in_method req"
    by (simp add: opts_def target_def subapp_options_def Let_def)
  have headers: "opt_headers opts =
       AList.update ''Connection'' (JStr ''Keep-Alive'')
         (AList.update ''Host'' (url_host target)
           (AList.update ''Origin'' (url_host target) (in_headers req)))"
    unfolding opts_def target_def by (rule subapp_headers)
  have plain: "url_protocol target = JStr ''http:'' \<longrightarrow>
        subapp_request url_parse self req
          = Inr \<lparr>px_request = HttpRequest opts, px_body = in_body req\<rparr>"
    using parts by (simp add: subapp_request_def createCoreRequest_def opts_def)
  have tls: "url_protocol target = JStr ''https:'' \<longrightarrow>
        subapp_request url_parse self req
          = Inr \<lparr>px_request = HttpsRequest opts, px_body = in_body req\<rparr>"
    using parts by (simp add: subapp_request_def createCoreRequest_def opts_def)
  have sent: "(\<forall>k \<in> fst ` set (in_headers req). toLowerCase k = k) \<longrightarrow>
        map_of (request_headers (opt_headers opts)) ''connection'' = Some (JStr ''Keep-Alive'')
        \<and> map_of (request_headers (opt_headers opts)) ''host'' = Some (url_host target)
        \<and> map_of (request_headers (opt_headers opts)) ''origin'' = Some (url_host target)
        \<and> (\<forall>n. n \<noteq> ''connection'' \<and> n \<noteq> ''host'' \<and> n \<noteq> ''origin'' \<longrightarrow>
             map_of (request_headers (opt_headers opts)) n
               = map_of (request_headers (in_headers req)) n)"
    by (simp add: opts_def target_def subapp_request_headers)
  from parts headers plain tls sent show ?thesis
    by blast
qed

theorem subapp_upstream_request_witness:
  "subapp_request example_parse
     (ProxyClient example_mill blank (JObj [(''rootUrl'', JStr ''https://api.example/v1'')]))
     \<lparr>in_method = ''GET'', in_url = ''/search?q=x'',
      in_headers = [(''host'', JStr ''localhost:3000''), (''connection'', JStr ''close''),
                    (''origin'', JStr ''http://localhost:3000''), (''accept'', JStr ''*/*'')],
      in_body = []\<rparr>
   = Inr \<lparr>px_request = HttpsRequest
            \<lparr>opt_protocol = JStr ''https:'', opt_method = ''GET'',
             opt_hostname = JStr ''api.example'', opt_port = JNull,
             opt_path = JStr ''/v1/search?q=x'',
             opt_headers = [(''host'', JStr ''localhost:3000''), (''connection'', JStr ''close''),
                            (''origin'', JStr ''http://localhost:3000''),
                            (''accept'', JStr ''*/*''),
                            (''Origin'', JStr ''api.example''), (''Host'', JStr ''api.example''),
                            (''Connection'', JStr ''Keep-Alive'')]\<rparr>,
          px_body = []\<rparr>
   \<and> request_headers
        [(''host'', JStr ''localhost:3000''), (''connection'', JStr ''close''),
         (''origin'', JStr ''http://localhost:3000''), (''accept'', JStr ''*/*''),
         (''Origin'', JStr ''api.example''), (''Host'', JStr ''api.example''),
         (''Connection'', JStr ''Keep-Alive'')]
     = [(''host'', JStr ''api.example''), (''connection'', JStr ''Keep-Alive''),
        (''origin'', JStr ''api.example''), (''accept'', JStr ''*/*'')]
   \<and> subapp_request example_parse (ProxyClient example_mill blank JUndefined)
       \<lparr>in_method = ''GET'', in_url = ''/search'', in_headers = [], in_body = []\<rparr>
     = Inr \<lparr>px_request = HttpRequest
            \<lparr>opt_protocol = JStr ''http:'', opt_method = ''GET'',
             opt_hostname = JStr ''localhost'', opt_port = JNull,
             opt_path = JStr ''/search'',
             opt_headers = [(''Origin'', JStr ''localhost''), (''Host'', JStr ''localhost''),
                            (''Connection'', JStr ''Keep-Alive'')]\<rparr>,
          px_body = []\<rparr>"
proof -
  let ?c = "ProxyClient example_mill blank (JObj [(''rootUrl'', JStr ''https://api.example/v1'')])"
  let ?inb = "[(''host'', JStr ''localhost:3000''), (''connection'', JStr ''close''),
               (''origin'', JStr ''http://localhost:3000''), (''accept'', JStr ''*/*'')]"
  let ?req = "\<lparr>in_method = ''GET'', in_url = ''/search?q=x'', in_headers = ?inb,
               in_body = []\<rparr>"
  let ?o = "subapp_options example_parse ?c ?req"
  let ?d = "ProxyClient example_mill blank JUndefined"
  let ?plain = "\<lparr>in_method = ''GET'', in_url = ''/search'', in_headers = [], in_body = []\<rparr>"
  let ?p = "subapp_options example_parse ?d ?plain"
  have url: "getUrl example_parse ?c (in_url ?req) = ''https://api.example/v1/search?q=x''"
    by (simp add: getUrl_def example_parse_def ProxyClient_blank js_or_def)
  have parsed: "example_parse ''https://api.example/v1/search?q=x''
      = absolute_url ''https:'' ''api.example'' ''/v1/search?q=x''"
    by (simp add: example_parse_def)
  have lower: "\<forall>k \<in> fst ` set (in_headers ?req). toLowerCase k = k"
    by (simp add: toLowerCase_def lower_char_def)
  note tls = subapp_upstream_request [where url_parse = example_parse and self = ?c and req = ?req,
      unfolded url parsed]
  from tls have o: "?o = \<lparr>opt_protocol = JStr ''https:'', opt_method = ''GET'',
             opt_hostname = JStr ''api.example'', opt_port = JNull,
             opt_path = JStr ''/v1/search?q=x'',
             opt_headers = ?inb @ [(''Origin'', JStr ''api.example''),
               (''Host'', JStr ''api.example''), (''Connection'', JStr ''Keep-Alive'')]\<rparr>"
    by (cases ?o) (simp add: absolute_url_def)
  from tls have run: "subapp_request example_parse ?c ?req
      = Inr \<lparr>px_request = HttpsRequest ?o, px_body = in_body ?req\<rparr>"
    by (simp add: absolute_url_def)
  from tls lower have sent:
    "map_of (request_headers (opt_headers ?o)) ''connection'' = Some (JStr ''Keep-Alive'')"
    "map_of (request_headers (opt_headers ?o)) ''host''
       = Some (url_host (absolute_url ''https:'' ''api.example'' ''/v1/search?q=x''))"
    "map_of (request_headers (opt_headers ?o)) ''origin''
       = Some (url_host (absolute_url ''https:'' ''api.example'' ''/v1/search?q=x''))"
    by blast+
  have all: "request_headers (?inb @ [(''Origin'', JStr ''api.example''),
               (''Host'', JStr ''api.example''), (''Connection'', JStr ''Keep-Alive'')])
     = [(''host'', JStr ''api.example''), (''connection'', JStr ''Keep-Alive''),
        (''origin'', JStr ''api.example''), (''accept'', JStr ''*/*'')]"
    by (simp add: request_headers_def keys_def toLowerCase_def lower_char_def)
  have url2: "getUrl example_parse ?d (in_url ?plain) = ''http://localhost/search''"
    by (simp add: getUrl_def example_parse_def ProxyClient_blank js_or_def)
  have parsed2: "example_parse ''http://localhost/search''
      = absolute_url ''http:'' ''localhost'' ''/search''"
    by (simp add: example_parse_def)
  note plain = subapp_upstream_request [where url_parse = example_parse and self = ?d
      and req = ?plain, unfolded url2 parsed2]
  from plain have p: "?p = \<lparr>opt_protocol = JStr ''http:'', opt_method = ''GET'',
             opt_hostname = JStr ''localhost'', opt_port = JNull,
             opt_path = JStr ''/search'',
             opt_headers = [(''Origin'', JStr ''localhost''), (''Host'', JStr ''localhost''),
                            (''Connection'', JStr ''Keep-Alive'')]\<rparr>"
    by (cases ?p) (simp add: absolute_url_def)
  from plain have run2: "subapp_request example_parse ?d ?plain
      = Inr \<lparr>px_request = HttpRequest ?p, px_body = in_body ?plain\<rparr>"
    by (simp add: absolute_url_def)
  from run o sent all run2 p show ?thesis by simp
qed


subsection \<open>Relaying the upstream response\<close>

lemma res_set_keys_fold:
  assumes "\<forall>k \<in> set ks. \<exists>v. map_of field k = Some v
             \<and> (toLowerCase k = ''content-type'' \<longrightarrow> (\<exists>s. v = Single s))"
  shows "res_set_keys content_type field ks res =
     Inr (res\<lparr>out_headers :=
            fold (\<lambda>k. AList.update (toLowerCase k) (stored_field content_type field k)) ks
              (out_headers res)\<rparr>)"
  using assms
proof (induction ks arbitrary: res)
  case Nil
  show ?case by simp
next
  case (Cons k ks)
  from Cons.prems obtain v where v: "map_of field k = Some v"
    and single: "toLowerCase k = ''content-type'' \<longrightarrow> (\<exists>s. v = Single s)"
    by auto
  have step: "res_set_field content_type k v res =
      Inr (res\<lparr>out_headers :=
             AList.update (toLowerCase k) (stored_field content_type field k) (out_headers res)\<rparr>)"
    using v single
    by (cases v) (auto simp add: res_set_field_def setHeader_def stored_field_def)
  from Cons.prems have rest: "\<forall>k \<in> set ks. \<exists>v. map_of field k = Some v
             \<and> (toLowerCase k = ''content-type'' \<longrightarrow> (\<exists>s. v = Single s))"
    by simp
  show ?case
    by (simp add: v step Cons.IH [OF rest])
qed

lemma filter_eq_distinct:
  "distinct ks \<Longrightarrow> filter (\<lambda>k. k = n) ks = (if n \<in> set ks then [n] else [])"
  by (induction ks) auto

lemma filter_lower_names:
  assumes "\<forall>k \<in> fst ` set hs. toLowerCase k = k"
  shows "filter (\<lambda>k. toLowerCase k = n) (keys hs) = (if n \<in> fst ` set hs then [n] else [])"
proof -
  have "filter (\<lambda>k. toLowerCase k = n) (keys hs) = filter (\<lambda>k. k = n) (keys hs)"
    using assms by (intro filter_cong) (auto simp add: keys_def)
  also have "\<dots> = (if n \<in> set (keys hs) then [n] else [])"
    by (rule filter_eq_distinct) (simp add: keys_def)
  finally show ?thesis by (simp add: keys_def)
qed

text \<open>
  The response after the listener has run, for an upstream response as Node delivers it:
  header names in lower case, \<open>content-type\<close> a single string.
\<close>

lemma subapp_response_result:
  assumes lower: "\<forall>k \<in> fst ` set (up_headers incoming). toLowerCase k = k"
    and ctype: "\<forall>vs. map_of (up_headers incoming) ''content-type'' \<noteq> Some (Multi vs)"
  shows "subapp_response content_type incoming res =
     Inr \<lparr>out_statusCode = up_statusCode incoming,
          out_headers =
            fold (\<lambda>k. AList.update (toLowerCase k)
                    (stored_field content_type (up_headers incoming) k))
              (keys (up_headers incoming)) (out_headers res),
          out_body = out_body res @ up_body incoming\<rparr>"
proof -
  have ok: "\<forall>k \<in> set (keys (up_headers incoming)).
      \<exists>v. map_of (up_headers incoming) k = Some v
        \<and> (toLowerCase k = ''content-type'' \<longrightarrow> (\<exists>s. v = Single s))"
  proof
    fix k
    assume k: "k \<in> set (keys (up_headers incoming))"
    then have mem: "k \<in> fst ` set (up_headers incoming)"
      by (simp add: keys_def)
    then have "map_of (up_headers incoming) k \<noteq> None"
      by (simp add: map_of_eq_None_iff)
    then obtain v where v: "map_of (up_headers incoming) k = Some v"
      by blast
    from lower mem have same: "toLowerCase k = k"
      by blast
    have "toLowerCase k = ''content-type'' \<longrightarrow> (\<exists>s. v = Single s)"
      using v same ctype by (cases v) auto
    with v show "\<exists>v. map_of (up_headers incoming) k = Some v
        \<and> (toLowerCase k = ''content-type'' \<longrightarrow> (\<exists>s. v = Single s))"
      by blast
  qed
  show ?thesis
    by (simp add: subapp_response_def res_set_def res_set_keys_fold [OF ok] pipe_def
        res_status_def)
qed

lemma subapp_response_header:
  assumes lower: "\<forall>k \<in> fst ` set (up_headers incoming). toLowerCase k = k"
    and ctype: "\<forall>vs. map_of (up_headers incoming) ''content-type'' \<noteq> Some (Multi vs)"
    and run: "subapp_response content_type incoming res = Inr res'"
  shows "map_of (out_headers res') n =
     (if n \<in> fst ` set (up_headers incoming)
      then Some (stored_field content_type (up_headers incoming) n)
      else map_of (out_headers res) n)"
proof -
  from run have "out_headers res' =
      fold (\<lambda>k. AList.update (toLowerCase k)
              (stored_field content_type (up_headers incoming) k))
        (keys (up_headers incoming)) (out_headers res)"
    unfolding subapp_response_result [OF lower ctype] by auto
  then show ?thesis
    by (simp add: fold_update_last filter_lower_names [OF lower])
qed

text \<open>
  Claim C9, as the code has it. For an upstream response as Node delivers it (header
  names in lower case, \<open>content-type\<close> a single string) the listener succeeds, and the
  response to the caller gets the upstream status code; every upstream header field is
  set on it with the upstream value, except that \<open>content-type\<close> is stored as Express
  rewrites it; every field the response already had under a name the upstream response
  does not use is kept; and the upstream chunks are written in order, unchanged, after
  whatever was written before.
\<close>

theorem subapp_response_relays:
  assumes lower: "\<forall>k \<in> fst ` set (up_headers incoming). toLowerCase k = k"
    and ctype: "\<forall>vs. map_of (up_headers incoming) ''content-type'' \<noteq> Some (Multi vs)"
  shows "\<exists>res'. subapp_response content_type incoming res = Inr res'
     \<and> out_statusCode res' = up_statusCode incoming
     \<and> (\<forall>k v. map_of (up_headers incoming) k = Some v \<and> k \<noteq> ''content-type'' \<longrightarrow>
           map_of (out_headers res') k = Some v)
     \<and> (\<forall>s. map_of (up_headers incoming) ''content-type'' = Some (Single s) \<longrightarrow>
           map_of (out_headers res') ''content-type'' = Some (Single (content_type s)))
     \<and> (\<forall>n. n \<notin> fst ` set (up_headers incoming) \<longrightarrow>
           map_of (out_headers res') n = map_of (out_headers res) n)
     \<and> out_body res' = out_body res @ up_body incoming
     \<and> (out_body res = [] \<longrightarrow> out_body res' = up_body incoming)"
proof -
  let ?hs = "up_headers incoming"
  obtain res' where run: "subapp_response content_type incoming res = Inr res'"
    and status: "out_statusCode res' = up_statusCode incoming"
    and body: "out_body res' = out_body res @ up_body incoming"
    using subapp_response_result [OF lower ctype, of content_type res] by simp
  note header = subapp_response_header [OF lower ctype run]
  have other: "\<forall>k v. map_of ?hs k = Some v \<and> k \<noteq> ''content-type'' \<longrightarrow>
      map_of (out_headers res') k = Some v"
  proof (intro allI impI)
    fix k v
    assume kv: "map_of ?hs k = Some v \<and> k \<noteq> ''content-type''"
    then have mem: "k \<in> fst ` set ?hs"
      by (auto dest: map_of_SomeD intro: rev_image_eqI)
    with lower have "toLowerCase k = k" by blast
    with kv have "stored_field content_type ?hs k = v"
      by (cases v) (simp_all add: stored_field_def)
    with mem show "map_of (out_headers res') k = Some v"
      by (simp add: header)
  qed
  have ct: "\<forall>s. map_of ?hs ''content-type'' = Some (Single s) \<longrightarrow>
      map_of (out_headers res') ''content-type'' = Some (Single (content_type s))"
  proof (intro allI impI)
    fix s
    assume s: "map_of ?hs ''content-type'' = Some (Single s)"
    then have mem: "''content-type'' \<in> fst ` set ?hs"
      by (auto dest: map_of_SomeD intro: rev_image_eqI)
    with lower have "toLowerCase ''content-type'' = ''content-type''" by blast
    with s have "stored_field content_type ?hs ''content-type'' = Single (content_type s)"
      by (simp add: stored_field_def)
    with mem show "map_of (out_headers res') ''content-type'' = Some (Single (content_type s))"
      by (simp add: header)
  qed
  have kept: "\<forall>n. n \<notin> fst ` set ?hs \<longrightarrow> map_of (out_headers res') n = map_of (out_headers res) n"
    by (simp add: header)
  from run status other ct kept body show ?thesis
    by auto
qed

theorem subapp_response_relays_witness:
  "subapp_response example_content_type
       \<lparr>up_statusCode = 404,
        up_headers = [(''content-type'', Single ''text/plain''),
                      (''set-cookie'', Multi [''a=1'', ''b=2''])],
        up_body = [''no'', ''pe'']\<rparr>
       \<lparr>out_statusCode = 200, out_headers = [(''x-powered-by'', Single ''Express'')],
        out_body = []\<rparr>
     = Inr \<lparr>out_statusCode = 404,
            out_headers = [(''x-powered-by'', Single ''Express''),
                           (''content-type'', Single ''text/plain; charset=utf-8''),
                           (''set-cookie'', Multi [''a=1'', ''b=2''])],
            out_body = [''no'', ''pe'']\<rparr>"
proof -
  let ?up = "\<lparr>up_statusCode = 404,
        up_headers = [(''content-type'', Single ''text/plain''),
                      (''set-cookie'', Multi [''a=1'', ''b=2''])],
        up_body = [''no'', ''pe'']\<rparr>"
  let ?res = "\<lparr>out_statusCode = 200, out_headers = [(''x-powered-by'', Single ''Express'')],
        out_body = []\<rparr>"
  have lower: "\<forall>k \<in> fst ` set (up_headers ?up). toLowerCase k = k"
    by (simp add: toLowerCase_def lower_char_def)
  have ctype: "\<forall>vs. map_of (up_headers ?up) ''content-type'' \<noteq> Some (Multi vs)"
    by simp
  from subapp_response_relays [OF lower ctype, of example_content_type ?res]
  obtain res' where run: "subapp_response example_content_type ?up ?res = Inr res'"
    and status: "out_statusCode res' = up_statusCode ?up"
    and cookie: "map_of (out_headers res') ''set-cookie'' = Some (Multi [''a=1'', ''b=2''])"
    and ct: "map_of (out_headers res') ''content-type''
               = Some (Single (example_content_type ''text/plain''))"
    and kept: "map_of (out_headers res') ''x-powered-by'' = map_of (out_headers ?res) ''x-powered-by''"
    and body: "out_body res' = up_body ?up"
    by (auto simp del: map_of.simps simp add: map_of.simps(1) map_of_Cons_code(2))
  have "subapp_response example_content_type ?up ?res
     = Inr \<lparr>out_statusCode = 404,
            out_headers = [(''x-powered-by'', Single ''Express''),
                           (''content-type'', Single ''text/plain; charset=utf-8''),
                           (''set-cookie'', Multi [''a=1'', ''b=2''])],
            out_body = [''no'', ''pe'']\<rparr>"
    by (simp add: subapp_response_def res_set_def keys_def res_set_field_def setHeader_def
        res_status_def pipe_def toLowerCase_def lower_char_def example_content_type_def)
  with run status cookie ct kept body show ?thesis by simp
qed

text \<open>
  The claim's equality of headers fails: Express hands the handler a response that
  already has its \<open>X-Powered-By\<close> field, and the field stays, though the upstream
  response has no such header.
\<close>

theorem subapp_response_headers_counterexample:
  "subapp_response example_content_type
       \<lparr>up_statusCode = 404,
        up_headers = [(''content-type'', Single ''application/octet-stream'')],
        up_body = [''no'', ''pe'']\<rparr>
       \<lparr>out_statusCode = 200, out_headers = [(''x-powered-by'', Single ''Express'')],
        out_body = []\<rparr>
     = Inr \<lparr>out_statusCode = 404,
            out_headers = [(''x-powered-by'', Single ''Express''),
                           (''content-type'', Single ''application/octet-stream'')],
            out_body = [''no'', ''pe'']\<rparr>
   \<and> map_of [(''x-powered-by'', Single ''Express''),
              (''content-type'', Single ''application/octet-stream'')] ''x-powered-by''
       = Some (Single ''Express'')
   \<and> map_of (up_headers
       \<lparr>up_statusCode = 404,
        up_headers = [(''content-type'', Single ''application/octet-stream'')],
        up_body = [''no'', ''pe'']\<rparr>) ''x-powered-by'' = None"
  by (simp add: subapp_response_def res_set_def keys_def res_set_field_def setHeader_def
      res_status_def pipe_def toLowerCase_def lower_char_def example_content_type_def)

end
